theory Spec2Isabelle
  imports Main
begin

section \<open>The transport: net/http's ResponseWriter\<close>

text \<open>
  The handlers of the package write to an \<^verbatim>\<open>http.ResponseWriter\<close>. The interface belongs to
  Go's standard library; it is modelled by the state of \<^verbatim>\<open>httptest.ResponseRecorder\<close>, the
  library's own recording implementation of the interface contract:
  \<^item> \<^verbatim>\<open>Header()\<close> is the live header map (\<open>HeaderMap\<close>), a \<^verbatim>\<open>map[string][]string\<close>;
  \<^item> the first \<^verbatim>\<open>WriteHeader(code)\<close> commits the status code and a snapshot of the header
    map (\<open>snapHeader\<close>): these are the status line and the headers of the response that is
    sent. "Changing the header map after a call to WriteHeader (or Write) has no effect"
    (documentation of \<^verbatim>\<open>ResponseWriter.Header\<close>), and a second \<^verbatim>\<open>WriteHeader\<close> is ignored;
  \<^item> \<^verbatim>\<open>Write\<close> commits with status 200 when nothing was committed, then appends to the body;
  \<^item> \<^verbatim>\<open>WriteHeader\<close> on a writer that has not committed panics when the code is outside
    100..999 (\<^verbatim>\<open>checkWriteHeaderCode\<close>, in the recorder as in the server).

  Header names are taken in their canonical form (\<^verbatim>\<open>Get\<close> and \<^verbatim>\<open>Set\<close> canonicalise the key they
  are given). Left out: the sniffing of a Content-Type by a \<^verbatim>\<open>Write\<close> that commits implicitly,
  and the refusal of a body (\<^verbatim>\<open>ErrBodyNotAllowed\<close>) for the statuses that allow none, 1xx, 204
  and 304; what is proved below about a body is proved for other statuses.

  The record is extensible: whatever else the endpoints and middlewares of an application
  touch (a log, a session store) lives in the extension \<open>'a\<close> of the writer state, so one state
  is threaded through a request.

  A panic ends the handling of the request: it is the \<open>Inl\<close> of every result below. The
  package has no \<^verbatim>\<open>recover\<close>; recovery by application code is not modelled.
\<close>

datatype panic = NilDereference | IndexOutOfRange | InvalidWriteHeaderCode

type_synonym Header = "string \<rightharpoonup> string list"

definition Header_Get :: "Header \<Rightarrow> string \<Rightarrow> string" where
  "Header_Get h key =
     (case h key of None \<Rightarrow> [] | Some vs \<Rightarrow> (case vs of [] \<Rightarrow> [] | v # _ \<Rightarrow> v))"

definition Header_Set :: "string \<Rightarrow> string \<Rightarrow> Header \<Rightarrow> Header" where
  "Header_Set key v h = h(key \<mapsto> [v])"

record ResponseWriter =
  HeaderMap :: Header
  wroteHeader :: bool
  Code :: int
  snapHeader :: Header
  Body :: string

definition NewRecorder :: ResponseWriter where
  "NewRecorder =
     \<lparr>HeaderMap = Map.empty, wroteHeader = False, Code = 200, snapHeader = Map.empty, Body = []\<rparr>"

definition WriteHeader :: "int \<Rightarrow> 'a ResponseWriter_scheme \<Rightarrow> panic + 'a ResponseWriter_scheme" where
  "WriteHeader code rw =
     (if wroteHeader rw then Inr rw
      else if code < 100 \<or> 999 < code then Inl InvalidWriteHeaderCode
      else Inr (rw\<lparr>wroteHeader := True, Code := code, snapHeader := HeaderMap rw\<rparr>))"

definition Write :: "string \<Rightarrow> 'a ResponseWriter_scheme \<Rightarrow> panic + 'a ResponseWriter_scheme" where
  "Write buf rw =
     (case WriteHeader 200 rw of
        Inl p \<Rightarrow> Inl p
      | Inr rw \<Rightarrow> Inr (rw\<lparr>Body := Body rw @ buf\<rparr>))"

definition rw_Header_Get :: "'a ResponseWriter_scheme \<Rightarrow> string \<Rightarrow> string" where
  \<comment> \<open>\<^verbatim>\<open>rw.Header().Get(key)\<close>\<close>
  "rw_Header_Get rw key = Header_Get (HeaderMap rw) key"

definition rw_Header_Set :: "string \<Rightarrow> string \<Rightarrow> 'a ResponseWriter_scheme \<Rightarrow> 'a ResponseWriter_scheme" where
  \<comment> \<open>\<^verbatim>\<open>rw.Header().Set(key, value)\<close>\<close>
  "rw_Header_Set key v rw = rw\<lparr>HeaderMap := Header_Set key v (HeaderMap rw)\<rparr>"


section \<open>response.go\<close>

text \<open>
  \<^verbatim>\<open>HttpResponse\<close> is \<^verbatim>\<open>http.Handler\<close>: one method \<^verbatim>\<open>ServeHTTP(rw, r)\<close>. The datatype has one
  constructor for each implementing struct of response.go that the claims reach and one for
  \<^verbatim>\<open>HttpResponseFunc\<close>; an interface value that may be \<^verbatim>\<open>nil\<close> is an \<open>option\<close>.
  (\<^verbatim>\<open>htmlResponse\<close> and \<^verbatim>\<open>redirectResponse\<close> wrap template parsing and \<^verbatim>\<open>http.Redirect\<close> and are
  left out.) A \<^verbatim>\<open>[]byte\<close> and a Go \<^verbatim>\<open>string\<close> are both byte sequences: \<open>string\<close>, a list of
  8-bit characters. A \<^verbatim>\<open>MapString\<close> that is ranged over is the list of its entries in the
  order the \<^verbatim>\<open>range\<close> visits them (Go leaves the order open; the keys of a map are distinct).
\<close>

type_synonym MapString = "(string \<times> string) list"

datatype 'a HttpResponse =
    bytesResponse string
  | statusResponse int "'a HttpResponse option"
  | headerResponse MapString "'a HttpResponse option"
  | stringResponse int string
  | jsonResponse int string
  | xmlResponse int string
  | HttpResponseFunc "'a ResponseWriter_scheme \<Rightarrow> panic + 'a ResponseWriter_scheme"

text \<open>
  Modelled from the spec: the constants of the package are declared in a file that is not
  part of the sources at hand. The spec names the content types (text, JSON, XML) and the
  status 500 of a marshaling failure.
\<close>

definition ResponseHeaderContentType :: string where
  "ResponseHeaderContentType = ''Content-Type''"

definition ContentTypeTextPlain :: string where
  "ContentTypeTextPlain = ''text/plain''"

definition ContentTypeApplicationJson :: string where
  "ContentTypeApplicationJson = ''application/json''"

definition ContentTypeApplicationXml :: string where
  "ContentTypeApplicationXml = ''application/xml''"

definition StatusInternalServerError :: int where
  "StatusInternalServerError = 500"

definition headerResponse_loop :: "MapString \<Rightarrow> 'a ResponseWriter_scheme \<Rightarrow> 'a ResponseWriter_scheme" where
  \<comment> \<open>the \<^verbatim>\<open>for key, value := range h.headers\<close> of \<^verbatim>\<open>headerResponse.ServeHTTP\<close>\<close>
  "headerResponse_loop headers rw =
     fold (\<lambda>(key, v) rw. if length (rw_Header_Get rw key) = 0 then rw_Header_Set key v rw else rw)
       headers rw"

fun ServeHTTP :: "'a HttpResponse \<Rightarrow> 'a ResponseWriter_scheme \<Rightarrow> panic + 'a ResponseWriter_scheme" where
  "ServeHTTP (bytesResponse d) rw = Write d rw"
| "ServeHTTP (statusResponse code response) rw =
     (case WriteHeader code rw of
        Inl p \<Rightarrow> Inl p
      | Inr rw \<Rightarrow> (case response of None \<Rightarrow> Inr rw | Some r \<Rightarrow> ServeHTTP r rw))"
| "ServeHTTP (headerResponse headers response) rw =
     (let rw = headerResponse_loop headers rw
      in case response of None \<Rightarrow> Inr rw | Some r \<Rightarrow> ServeHTTP r rw)"
| "ServeHTTP (stringResponse code d) rw =
     (case WriteHeader code rw of
        Inl p \<Rightarrow> Inl p
      | Inr rw \<Rightarrow> Write d (rw_Header_Set ResponseHeaderContentType ContentTypeTextPlain rw))"
| "ServeHTTP (jsonResponse code d) rw =
     (case WriteHeader code rw of
        Inl p \<Rightarrow> Inl p
      | Inr rw \<Rightarrow> Write d (rw_Header_Set ResponseHeaderContentType ContentTypeApplicationJson rw))"
| "ServeHTTP (xmlResponse code d) rw =
     (case WriteHeader code rw of
        Inl p \<Rightarrow> Inl p
      | Inr rw \<Rightarrow> Write d (rw_Header_Set ResponseHeaderContentType ContentTypeApplicationXml rw))"
| "ServeHTTP (HttpResponseFunc f) rw = f rw"

definition call_ServeHTTP :: "'a HttpResponse option \<Rightarrow> 'a ResponseWriter_scheme \<Rightarrow> panic + 'a ResponseWriter_scheme" where
  \<comment> \<open>\<^verbatim>\<open>response.ServeHTTP(rw, r)\<close> on an interface value: the call on \<^verbatim>\<open>nil\<close> panics\<close>
  "call_ServeHTTP response rw =
     (case response of None \<Rightarrow> Inl NilDereference | Some r \<Rightarrow> ServeHTTP r rw)"

definition StatusWithResponse :: "int \<Rightarrow> 'a HttpResponse option \<Rightarrow> 'a HttpResponse" where
  "StatusWithResponse code response = statusResponse code response"

definition Bytes :: "int \<Rightarrow> string \<Rightarrow> 'a HttpResponse" where
  "Bytes code d = StatusWithResponse code (Some (bytesResponse d))"

definition Status :: "int \<Rightarrow> 'a HttpResponse" where
  "Status code = statusResponse code None"

definition WithHeaders :: "MapString \<Rightarrow> 'a HttpResponse option \<Rightarrow> 'a HttpResponse" where
  "WithHeaders headers response = headerResponse headers response"

definition String :: "int \<Rightarrow> string \<Rightarrow> 'a HttpResponse" where
  "String code d = stringResponse code d"

definition jsonLeft :: string where
  \<open>jsonLeft = ''{"error":"''\<close>

definition jsonRight :: string where
  \<open>jsonRight = ''"}''\<close>

text \<open>
  \<^verbatim>\<open>for i := range e\<close> over a string visits the index of the first byte of each UTF-8 encoded
  code point, not every byte: after index \<open>i\<close> the next index is \<open>i\<close> plus the width that the
  runtime's decoder gives the bytes at \<open>i\<close> (1 for an ASCII byte and for an invalid encoding).
  \<open>decoderune_width\<close> is that width, from the language's definition of the range clause.
\<close>

definition continuation :: "char \<Rightarrow> bool" where
  "continuation c = (0x80 \<le> (of_char c :: nat) \<and> (of_char c :: nat) \<le> 0xBF)"

fun decoderune_width :: "string \<Rightarrow> nat" where
  "decoderune_width [] = 1"
| "decoderune_width (b0 # s) =
     (let n0 = (of_char b0 :: nat) in
      if n0 < 0x80 then 1
      else if 0xC0 \<le> n0 \<and> n0 < 0xE0 then
        (case s of
           b1 # _ \<Rightarrow>
             if continuation b1 \<and> 0x7F < (n0 mod 32) * 64 + (of_char b1 :: nat) mod 64 then 2 else 1
         | _ \<Rightarrow> 1)
      else if 0xE0 \<le> n0 \<and> n0 < 0xF0 then
        (case s of
           b1 # b2 # _ \<Rightarrow>
             (let r = (n0 mod 16) * 4096 + ((of_char b1 :: nat) mod 64) * 64 + (of_char b2 :: nat) mod 64
              in if continuation b1 \<and> continuation b2 \<and> 0x7FF < r \<and> \<not> (0xD800 \<le> r \<and> r \<le> 0xDFFF)
                 then 3 else 1)
         | _ \<Rightarrow> 1)
      else if 0xF0 \<le> n0 \<and> n0 < 0xF8 then
        (case s of
           b1 # b2 # b3 # _ \<Rightarrow>
             (let r = (n0 mod 8) * 262144 + ((of_char b1 :: nat) mod 64) * 4096
                      + ((of_char b2 :: nat) mod 64) * 64 + (of_char b3 :: nat) mod 64
              in if continuation b1 \<and> continuation b2 \<and> continuation b3 \<and> 0xFFFF < r \<and> r \<le> 0x10FFFF
                 then 4 else 1)
         | _ \<Rightarrow> 1)
      else 1)"

function Error_loop :: "string \<Rightarrow> string" where
  \<comment> \<open>the argument is \<^verbatim>\<open>e[i:]\<close>; the result is what the builder \<^verbatim>\<open>b\<close> receives from index \<open>i\<close> on\<close>
  "Error_loop [] = []"
| "Error_loop (c # cs) =
     (if c = CHR 0x22 then [CHR 0x22] else [c])
     @ Error_loop (drop (decoderune_width (c # cs) - 1) cs)"
  by pat_completeness auto
termination
  by (relation "measure length") simp_all

text \<open>
  A Go \<^verbatim>\<open>error\<close> is modelled by its message, \<^verbatim>\<open>err.Error()\<close>; the \<^verbatim>\<open>nil\<close> error is \<open>None\<close>, and
  calling its method panics.
\<close>

definition Error :: "int \<Rightarrow> string option \<Rightarrow> panic + 'a HttpResponse" where
  "Error code err =
     (case err of
        None \<Rightarrow> Inl NilDereference
      | Some e \<Rightarrow> Inr (jsonResponse code (jsonLeft @ Error_loop e @ jsonRight)))"

text \<open>
  \<^verbatim>\<open>json.Marshal\<close> and \<^verbatim>\<open>xml.Marshal\<close> are parameters: a function from the data to the
  marshaled bytes (\<open>Inr\<close>) or to the message of the error it returns (\<open>Inl\<close>).
  \<^verbatim>\<open>fmt.Errorf("json marshall: %v", err)\<close> is the error whose message is the prefix followed
  by the message of \<open>err\<close>.
\<close>

definition Json :: "('d \<Rightarrow> string + string) \<Rightarrow> int \<Rightarrow> 'd \<Rightarrow> panic + 'a HttpResponse" where
  "Json json_Marshal code d =
     (case json_Marshal d of
        Inl err \<Rightarrow> Error StatusInternalServerError (Some (''json marshall: '' @ err))
      | Inr jsonData \<Rightarrow> Inr (jsonResponse code jsonData))"

definition Message :: "int \<Rightarrow> string \<Rightarrow> 'a HttpResponse" where
  "Message code message = jsonResponse code message"

definition Xml :: "('d \<Rightarrow> string + string) \<Rightarrow> int \<Rightarrow> 'd \<Rightarrow> panic + 'a HttpResponse" where
  "Xml xml_Marshal code d =
     (case xml_Marshal d of
        Inl err \<Rightarrow> Error StatusInternalServerError (Some (''xml marshall: '' @ err))
      | Inr xmlData \<Rightarrow> Inr (xmlResponse code xmlData))"


section \<open>request.go\<close>

text \<open>
  \<^verbatim>\<open>BasicReader\<close> is \<^verbatim>\<open>map[string][]string\<close>, \<^verbatim>\<open>RouteParamReader\<close> is \<^verbatim>\<open>map[string]string\<close>. A
  slice is a list (\<^verbatim>\<open>nil\<close> is the empty list: the code only takes its length), and a
  two-valued return is a pair. Indexing a slice can panic, so \<open>BasicReader_Get\<close> returns a
  result.
\<close>

type_synonym BasicReader = "string \<rightharpoonup> string list"

type_synonym RouteParamReader = "string \<rightharpoonup> string"

definition BasicReader_GetSlice :: "BasicReader \<Rightarrow> string \<Rightarrow> string list \<times> bool" where
  "BasicReader_GetSlice reader key =
     (case reader key of
        None \<Rightarrow> ([], False)
      | Some list \<Rightarrow> if length list = 0 then ([], False) else (list, True))"

definition index :: "'a list \<Rightarrow> nat \<Rightarrow> panic + 'a" where
  \<comment> \<open>\<^verbatim>\<open>list[i]\<close>\<close>
  "index list i = (if i < length list then Inr (list ! i) else Inl IndexOutOfRange)"

definition BasicReader_Get :: "BasicReader \<Rightarrow> string \<Rightarrow> panic + (string \<times> bool)" where
  "BasicReader_Get reader key =
     (case BasicReader_GetSlice reader key of
        (list, ok) \<Rightarrow>
          if \<not> ok then Inr ([], False)
          else (case index list 0 of Inl p \<Rightarrow> Inl p | Inr s \<Rightarrow> Inr (s, True)))"

definition BasicReader_Has :: "BasicReader \<Rightarrow> string \<Rightarrow> bool" where
  "BasicReader_Has reader key = snd (BasicReader_GetSlice reader key)"

definition BasicReader_GetDefault :: "BasicReader \<Rightarrow> string \<Rightarrow> string \<Rightarrow> panic + string" where
  "BasicReader_GetDefault reader key defaultValue =
     (case BasicReader_Get reader key of
        Inl p \<Rightarrow> Inl p
      | Inr (s, ok) \<Rightarrow> if \<not> ok then Inr defaultValue else Inr s)"

definition RouteParamReader_Get :: "RouteParamReader \<Rightarrow> string \<Rightarrow> string \<times> bool" where
  "RouteParamReader_Get reader key =
     (case reader key of None \<Rightarrow> ([], False) | Some v \<Rightarrow> (v, True))"

definition RouteParamReader_Has :: "RouteParamReader \<Rightarrow> string \<Rightarrow> bool" where
  "RouteParamReader_Has reader key = (reader key \<noteq> None)"

definition RouteParamReader_GetDefault :: "RouteParamReader \<Rightarrow> string \<Rightarrow> string \<Rightarrow> string" where
  "RouteParamReader_GetDefault reader key defaultValue =
     (case RouteParamReader_Get reader key of (s, ok) \<Rightarrow> if \<not> ok then defaultValue else s)"

text \<open>
  \<open>http_Request\<close> holds what the package reads of an \<^verbatim>\<open>*http.Request\<close>: the method, the
  path of the URL, the parsed query (\<^verbatim>\<open>URL.Query()\<close>) and the header.

  \<open>HttpRequest\<close> is the struct of request.go. Its field \<^verbatim>\<open>RouteParams\<close> is a pointer,
  \<^verbatim>\<open>*RouteParamReader\<close>, to a map that \<^verbatim>\<open>NewHttpRequest\<close> allocates. The struct is passed by
  value, so the router, every middleware and the endpoint hold copies that point to the
  same map, and each of them can read it and can write it through the pointer. The map is
  therefore part of the state of the request: \<open>RequestState\<close> is the writer together with
  that map, \<^verbatim>\<open>*request.RouteParams\<close> is the field \<open>RouteParams\<close> of the state, and the pointer
  itself, which never changes, is no field of the record. \<^verbatim>\<open>NewHttpRequest\<close> returns the
  struct and leaves the state with a new, empty map. The struct's \<^verbatim>\<open>ResponseWriter\<close> is the
  writer of the state; its \<^verbatim>\<open>Body\<close> reader is not modelled; \<^verbatim>\<open>Params\<close> and \<^verbatim>\<open>Headers\<close>, which
  the package only reads, are held by value.
\<close>

record http_Request =
  http_Method :: string
  URL_Path :: string
  URL_Query :: BasicReader
  http_Header :: BasicReader

record RequestState = ResponseWriter +
  RouteParams :: RouteParamReader

record HttpRequest =
  Request :: http_Request
  Method :: string
  Params :: BasicReader
  Headers :: BasicReader

definition NewState :: RequestState where
  \<comment> \<open>a new recorder, and no bindings\<close>
  "NewState =
     \<lparr>HeaderMap = Map.empty, wroteHeader = False, Code = 200, snapHeader = Map.empty, Body = [],
      RouteParams = Map.empty\<rparr>"

definition NewHttpRequest ::
  "'b RequestState_scheme \<Rightarrow> http_Request \<Rightarrow> HttpRequest \<times> 'b RequestState_scheme" where
  "NewHttpRequest responseWriter request =
     (let paramReader = URL_Query request;
          headerReader = http_Header request;
          routeParamReader = Map.empty
      in (\<lparr>Request = request, Method = http_Method request, Params = paramReader,
           Headers = headerReader\<rparr>,
          responseWriter\<lparr>RouteParams := routeParamReader\<rparr>))"


section \<open>handler.go\<close>

text \<open>
  \<^verbatim>\<open>Endpoint\<close> is \<^verbatim>\<open>func(HttpRequest) Response\<close> and \<^verbatim>\<open>Middleware\<close> is
  \<^verbatim>\<open>func(HttpRequest, Response) Response\<close>, where \<^verbatim>\<open>Response\<close> is the \<^verbatim>\<open>HttpResponse\<close> of
  response.go. Both are Go functions: calling one runs its body, which may write to the
  writer and to the map of route parameters it reaches through the request (or to anything
  else in the state), may panic, and returns a response that is served later, when the
  pipeline runs. So a call takes the state and returns the response with the new state. A
  function value may be \<^verbatim>\<open>nil\<close> (\<open>None\<close>); the call of a \<^verbatim>\<open>nil\<close> function panics.
\<close>

type_synonym 'b Response = "('b RequestState_ext) HttpResponse"

type_synonym 'b Endpoint =
  "HttpRequest \<Rightarrow> 'b RequestState_scheme \<Rightarrow> panic + ('b Response option \<times> 'b RequestState_scheme)"

type_synonym 'b Middleware =
  "HttpRequest \<Rightarrow> 'b Response option \<Rightarrow> 'b RequestState_scheme
     \<Rightarrow> panic + ('b Response option \<times> 'b RequestState_scheme)"

text \<open>
  Modelled from the spec: the declarations of the trie node, of the router and of its
  configuration are not part of the sources at hand. Of a node the handler reads two tables
  indexed by the method number, one slot per method, the slot of an unregistered method
  empty; the matcher is the function \<^verbatim>\<open>findNode\<close> from a path to the node, if any, and the
  parameter bindings. \<^verbatim>\<open>methodToInt\<close> and \<^verbatim>\<open>path.Clean\<close> are parameters of the handler.
\<close>

record 'b node =
  handler :: "int \<Rightarrow> 'b Endpoint option"
  middlewares :: "int \<Rightarrow> 'b Middleware option list"

record 'b RouterConfiguration =
  SanitizePaths :: bool
  RouteNotFoundHandler :: "'b Endpoint option"

record 'b Router =
  globalMiddlewares :: "'b Middleware option list"
  Configuration :: "'b RouterConfiguration"
  findNode :: "string \<Rightarrow> 'b node option \<times> RouteParamReader"

definition sanitizedPath :: "(string \<Rightarrow> string) \<Rightarrow> 'b Router \<Rightarrow> http_Request \<Rightarrow> string" where
  \<comment> \<open>handler.go, the path that is looked up\<close>
  "sanitizedPath path_Clean router request =
     (if SanitizePaths (Configuration router) then path_Clean (URL_Path request)
      else URL_Path request)"

definition lookupRoute ::
  "'b Router \<Rightarrow> 'b node option \<Rightarrow> int \<Rightarrow> 'b Endpoint option \<times> 'b Middleware option list" where
  \<comment> \<open>handler.go, from \<^verbatim>\<open>var endpoint Endpoint\<close> to the fallback on \<^verbatim>\<open>endpoint == nil\<close>\<close>
  "lookupRoute router nd m =
     (let (endpoint, mws) =
            (case nd of None \<Rightarrow> (None, []) | Some n \<Rightarrow> (handler n m, middlewares n m));
          endpoint =
            (case endpoint of
               None \<Rightarrow> RouteNotFoundHandler (Configuration router)
             | Some e \<Rightarrow> Some e)
      in (endpoint, mws))"

definition endpointResponse :: "'b Endpoint option \<Rightarrow> HttpRequest \<Rightarrow> 'b Response" where
  \<comment> \<open>the closure \<^verbatim>\<open>ResponseFunc(func(rw, r) { endpoint(httpRequest).ServeHTTP(rw, r) })\<close>\<close>
  "endpointResponse endpoint httpRequest =
     HttpResponseFunc (\<lambda>rw.
       case endpoint of
         None \<Rightarrow> Inl NilDereference
       | Some e \<Rightarrow>
           (case e httpRequest rw of
              Inl p \<Rightarrow> Inl p
            | Inr (response, rw) \<Rightarrow> call_ServeHTTP response rw))"

text \<open>
  \<^verbatim>\<open>for i := len(ms) - 1; i >= 0; i--\<close>: the second argument of \<open>composeLoop\<close> is \<open>i + 1\<close>, so the
  loop starts at \<open>length ms\<close> and ends at \<open>0\<close>.
\<close>

fun composeLoop ::
  "'b Middleware option list \<Rightarrow> nat \<Rightarrow> HttpRequest \<Rightarrow> 'b Response option
     \<Rightarrow> 'b RequestState_scheme \<Rightarrow> panic + ('b Response option \<times> 'b RequestState_scheme)" where
  "composeLoop ms 0 httpRequest next rw = Inr (next, rw)"
| "composeLoop ms (Suc i) httpRequest next rw =
     (case index ms i of
        Inl p \<Rightarrow> Inl p
      | Inr middleware \<Rightarrow>
          (case middleware of
             None \<Rightarrow> Inl NilDereference
           | Some mw \<Rightarrow>
               (case mw httpRequest next rw of
                  Inl p \<Rightarrow> Inl p
                | Inr (next, rw) \<Rightarrow> composeLoop ms i httpRequest next rw)))"

definition runPipeline ::
  "'b Middleware option list \<Rightarrow> 'b Middleware option list \<Rightarrow> HttpRequest \<Rightarrow> 'b Response option
     \<Rightarrow> 'b RequestState_scheme \<Rightarrow> panic + 'b RequestState_scheme" where
  \<comment> \<open>handler.go, the two loops and the final \<^verbatim>\<open>next.ServeHTTP(rw, request)\<close>\<close>
  "runPipeline mws globals httpRequest next rw =
     (case composeLoop mws (length mws) httpRequest next rw of
        Inl p \<Rightarrow> Inl p
      | Inr (next, rw) \<Rightarrow>
          (case composeLoop globals (length globals) httpRequest next rw of
             Inl p \<Rightarrow> Inl p
           | Inr (next, rw) \<Rightarrow> call_ServeHTTP next rw))"

text \<open>
  \<^verbatim>\<open>*httpRequest.RouteParams = params\<close> writes the bindings of the resolution into the map of
  the state, before the loops.
\<close>

definition Router_ServeHTTP ::
  "(string \<Rightarrow> int) \<Rightarrow> (string \<Rightarrow> string) \<Rightarrow> 'b Router \<Rightarrow> 'b RequestState_scheme \<Rightarrow> http_Request
     \<Rightarrow> panic + 'b RequestState_scheme" where
  "Router_ServeHTTP methodToInt path_Clean router rw request =
     (let (httpRequest, rw) = NewHttpRequest rw request;
          m = methodToInt (http_Method request);
          (nd, params) = findNode router (sanitizedPath path_Clean router request);
          rw = rw\<lparr>RouteParams := params\<rparr>;
          (endpoint, mws) = lookupRoute router nd m;
          next = Some (endpointResponse endpoint httpRequest)
      in runPipeline mws (globalMiddlewares router) httpRequest next rw)"


section \<open>Observers: middlewares and endpoints that record when they run\<close>

text \<open>
  To observe the order in which the router runs what it is given, the state is extended by a
  trace. \<open>probe n\<close> is the middleware
  \<^verbatim>\<open>func(req, next) Response { log(Called n); return ResponseFunc(func(rw, r) {
     log(Entered n); next.ServeHTTP(rw, r) }) }\<close>:
  it records the call of the middleware function, and the response it returns records that
  it is served before it serves \<open>next\<close>. \<open>logOnEntry n\<close> is
  \<^verbatim>\<open>func(req, next) Response { log(Called n); return next }\<close>, the shape of a middleware that
  checks the request and lets it pass. \<open>probeEndpoint\<close> records that the endpoint runs and
  returns a response that writes nothing. \<open>probeChain ns next\<close> is the response that the
  probes \<open>ns\<close> build around \<open>next\<close>, the first of \<open>ns\<close> outermost.
\<close>

datatype event = Called string | Entered string | EndpointRan

record TracedWriter = RequestState +
  trace :: "event list"

definition logEvent :: "event \<Rightarrow> 'c TracedWriter_scheme \<Rightarrow> 'c TracedWriter_scheme" where
  "logEvent ev rw = rw\<lparr>trace := trace rw @ [ev]\<rparr>"

definition probe :: "string \<Rightarrow> ('c TracedWriter_ext) Middleware" where
  "probe n = (\<lambda>httpRequest next rw.
     Inr (Some (HttpResponseFunc (\<lambda>rw. call_ServeHTTP next (logEvent (Entered n) rw))),
          logEvent (Called n) rw))"

definition logOnEntry :: "string \<Rightarrow> ('c TracedWriter_ext) Middleware" where
  "logOnEntry n = (\<lambda>httpRequest next rw. Inr (next, logEvent (Called n) rw))"

definition probeEndpoint :: "('c TracedWriter_ext) Endpoint" where
  "probeEndpoint = (\<lambda>httpRequest rw. Inr (Some (HttpResponseFunc Inr), logEvent EndpointRan rw))"

definition probeChain ::
  "string list \<Rightarrow> ('c TracedWriter_ext) Response option \<Rightarrow> ('c TracedWriter_ext) Response option" where
  "probeChain ns next =
     foldr (\<lambda>n next. Some (HttpResponseFunc (\<lambda>rw. call_ServeHTTP next (logEvent (Entered n) rw))))
       ns next"

text \<open>
  \<open>stateAfter\<close> is the state a call leaves behind, whatever it returns.
\<close>

definition stateAfter :: "panic + ('x \<times> 's) \<Rightarrow> panic + 's" where
  "stateAfter res = (case res of Inl p \<Rightarrow> Inl p | Inr (x, s) \<Rightarrow> Inr s)"

text \<open>
  To observe what the middlewares and the endpoint read as route parameters, the state is
  extended by a list of sightings. \<open>watcher n\<close> is the middleware
  \<^verbatim>\<open>func(req, next) Response { log(n, *req.RouteParams); return ResponseFunc(func(rw, r) {
     log(n, *req.RouteParams); next.ServeHTTP(rw, r) }) }\<close>:
  it records the bindings it reads through the request when the middleware function is
  called and again when the response it returns is served, and it never writes them.
  \<open>watcherEndpoint\<close> records the bindings the endpoint reads. \<open>watcherChain ns next\<close> is the
  response that the watchers \<open>ns\<close> build around \<open>next\<close>.
\<close>

datatype sighting =
    CallSaw string RouteParamReader
  | ServeSaw string RouteParamReader
  | EndpointSaw RouteParamReader

record WatchedState = RequestState +
  sightings :: "sighting list"

definition logSighting :: "sighting \<Rightarrow> 'c WatchedState_scheme \<Rightarrow> 'c WatchedState_scheme" where
  "logSighting x rw = rw\<lparr>sightings := sightings rw @ [x]\<rparr>"

definition watcher :: "string \<Rightarrow> ('c WatchedState_ext) Middleware" where
  "watcher n = (\<lambda>httpRequest next rw.
     Inr (Some (HttpResponseFunc
                  (\<lambda>rw. call_ServeHTTP next (logSighting (ServeSaw n (RouteParams rw)) rw))),
          logSighting (CallSaw n (RouteParams rw)) rw))"

definition watcherEndpoint :: "('c WatchedState_ext) Endpoint" where
  "watcherEndpoint = (\<lambda>httpRequest rw.
     Inr (Some (HttpResponseFunc Inr), logSighting (EndpointSaw (RouteParams rw)) rw))"

definition watcherChain ::
  "string list \<Rightarrow> ('c WatchedState_ext) Response option \<Rightarrow> ('c WatchedState_ext) Response option" where
  "watcherChain ns next =
     foldr (\<lambda>n next. Some (HttpResponseFunc
              (\<lambda>rw. call_ServeHTTP next (logSighting (ServeSaw n (RouteParams rw)) rw))))
       ns next"


section \<open>An application\<close>

text \<open>
  A router with one route, \<^verbatim>\<open>GET /users/:id\<close>, for concrete runs: its matcher resolves the path
  \<^verbatim>\<open>/users/42\<close> to the node of the route with the binding \<open>id = 42\<close> and no other path; the
  method numbers are 0 for GET, 1 for POST and -1 for any other string. \<open>corsMiddleware\<close>
  wraps \<open>next\<close> in \<^verbatim>\<open>WithHeaders\<close>; \<open>denyMiddleware\<close> answers 401 and drops \<open>next\<close>;
  \<open>passMiddleware\<close> returns \<open>next\<close>; \<open>eagerMiddleware\<close> serves \<open>next\<close> at once, inside the call
  that is meant to build the pipeline; \<open>rewriteMiddleware\<close> is
  \<^verbatim>\<open>func(req, next) Response { *req.RouteParams = RouteParamReader{"id": "7"}; return next }\<close>;
  \<open>echoEndpoint\<close> answers with the route parameter \<open>id\<close> it reads through the request.
  \<open>withNotFound e router\<close> is the router with \<open>e\<close> configured as its not-found endpoint.
\<close>

definition exampleMethodToInt :: "string \<Rightarrow> int" where
  "exampleMethodToInt s = (if s = ''GET'' then 0 else if s = ''POST'' then 1 else - 1)"

definition notFoundEndpoint :: "'b Endpoint" where
  "notFoundEndpoint = (\<lambda>httpRequest rw. Inr (Some (Status 404), rw))"

definition exampleNode :: "'b Middleware option list \<Rightarrow> 'b Endpoint \<Rightarrow> 'b node" where
  "exampleNode locals endpoint =
     \<lparr>handler = (\<lambda>m. if m = 0 then Some endpoint else None),
      middlewares = (\<lambda>m. if m = 0 then locals else [])\<rparr>"

definition exampleRouter ::
  "'b Middleware option list \<Rightarrow> 'b Middleware option list \<Rightarrow> 'b Endpoint \<Rightarrow> 'b Router" where
  "exampleRouter globals locals endpoint =
     \<lparr>globalMiddlewares = globals,
      Configuration = \<lparr>SanitizePaths = False, RouteNotFoundHandler = Some notFoundEndpoint\<rparr>,
      findNode = (\<lambda>path. if path = ''/users/42''
                          then (Some (exampleNode locals endpoint), [''id'' \<mapsto> ''42''])
                          else (None, Map.empty))\<rparr>"

definition withNotFound :: "'b Endpoint \<Rightarrow> 'b Router \<Rightarrow> 'b Router" where
  "withNotFound e router =
     router\<lparr>Configuration := (Configuration router)\<lparr>RouteNotFoundHandler := Some e\<rparr>\<rparr>"

definition exampleRequest :: "string \<Rightarrow> string \<Rightarrow> http_Request" where
  "exampleRequest m path =
     \<lparr>http_Method = m, URL_Path = path, URL_Query = Map.empty, http_Header = Map.empty\<rparr>"

definition tracedRecorder :: TracedWriter where
  "tracedRecorder =
     \<lparr>HeaderMap = Map.empty, wroteHeader = False, Code = 200, snapHeader = Map.empty, Body = [],
      RouteParams = Map.empty, trace = []\<rparr>"

definition watchedRecorder :: WatchedState where
  "watchedRecorder =
     \<lparr>HeaderMap = Map.empty, wroteHeader = False, Code = 200, snapHeader = Map.empty, Body = [],
      RouteParams = Map.empty, sightings = []\<rparr>"

definition corsMiddleware :: "'b Middleware" where
  "corsMiddleware = (\<lambda>httpRequest next rw. Inr (Some (WithHeaders [(''X'', ''1'')] next), rw))"

definition denyMiddleware :: "'b Middleware" where
  "denyMiddleware = (\<lambda>httpRequest next rw. Inr (Some (String 401 ''no''), rw))"

definition passMiddleware :: "'b Middleware" where
  "passMiddleware = (\<lambda>httpRequest next rw. Inr (next, rw))"

definition eagerMiddleware :: "'b Middleware" where
  "eagerMiddleware = (\<lambda>httpRequest next rw.
     case call_ServeHTTP next rw of Inl p \<Rightarrow> Inl p | Inr rw \<Rightarrow> Inr (next, rw))"

definition rewriteMiddleware :: "'b Middleware" where
  "rewriteMiddleware = (\<lambda>httpRequest next rw. Inr (next, rw\<lparr>RouteParams := [''id'' \<mapsto> ''7'']\<rparr>))"

definition echoEndpoint :: "'b Endpoint" where
  "echoEndpoint = (\<lambda>httpRequest rw.
     Inr (Some (String 200 (RouteParamReader_GetDefault (RouteParams rw) ''id'' ''none'')), rw))"


section \<open>The composition loop\<close>

text \<open>
  The loop calls the middlewares from the last to the first: the last middleware of the
  slice is called with the \<open>next\<close> the loop starts from, and what it returns is the \<open>next\<close> of
  the loop over the middlewares before it. Two loops in sequence, the route's middlewares
  and then the global ones, are one loop over the global middlewares followed by the
  route's.
\<close>

lemma composeLoop_append:
  "n \<le> length xs \<Longrightarrow> composeLoop (xs @ ys) n req nxt rw = composeLoop xs n req nxt rw"
  by (induction n arbitrary: nxt rw)
     (auto simp add: index_def nth_append split: sum.splits option.splits)

lemma composeLoop_snoc:
  "composeLoop (xs @ [x]) (Suc (length xs)) req nxt rw =
     (case x of
        None \<Rightarrow> Inl NilDereference
      | Some mw \<Rightarrow>
          (case mw req nxt rw of
             Inl p \<Rightarrow> Inl p
           | Inr (nxt', rw') \<Rightarrow> composeLoop xs (length xs) req nxt' rw'))"
  by (simp add: index_def composeLoop_append split: sum.splits option.splits)

lemma composeLoop_single:
  "composeLoop [Some m] (Suc 0) req nxt rw = m req nxt rw"
  by (simp add: index_def split: sum.splits prod.splits)

lemma composeLoop_concat:
  "composeLoop (gs @ ls) (length (gs @ ls)) req nxt rw =
     (case composeLoop ls (length ls) req nxt rw of
        Inl p \<Rightarrow> Inl p
      | Inr (n, rw') \<Rightarrow> composeLoop gs (length gs) req n rw')"
proof (induction ls arbitrary: nxt rw rule: rev_induct)
  case Nil
  then show ?case by simp
next
  case (snoc x xs)
  have whole: "composeLoop (gs @ xs @ [x]) (length (gs @ xs @ [x])) req nxt rw =
     (case x of
        None \<Rightarrow> Inl NilDereference
      | Some mw \<Rightarrow>
          (case mw req nxt rw of
             Inl p \<Rightarrow> Inl p
           | Inr (nxt', rw') \<Rightarrow> composeLoop (gs @ xs) (length (gs @ xs)) req nxt' rw'))"
    using composeLoop_snoc [of "gs @ xs" x req nxt rw] by simp
  have part: "composeLoop (xs @ [x]) (length (xs @ [x])) req nxt rw =
     (case x of
        None \<Rightarrow> Inl NilDereference
      | Some mw \<Rightarrow>
          (case mw req nxt rw of
             Inl p \<Rightarrow> Inl p
           | Inr (nxt', rw') \<Rightarrow> composeLoop xs (length xs) req nxt' rw'))"
    using composeLoop_snoc [of xs x req nxt rw] by simp
  show ?case
    unfolding whole part using snoc.IH
    by (simp split: option.splits sum.splits prod.splits)
qed

lemma runPipeline_chain:
  "runPipeline mws globals req nxt rw =
     (case composeLoop (globals @ mws) (length (globals @ mws)) req nxt rw of
        Inl p \<Rightarrow> Inl p
      | Inr (n, rw') \<Rightarrow> call_ServeHTTP n rw')"
  unfolding composeLoop_concat runPipeline_def
  by (simp split: sum.splits prod.splits)


section \<open>The order of execution (handler.go)\<close>

lemma composeLoop_probes:
  "composeLoop (map (\<lambda>n. Some (probe n)) ns) (length ns) req nxt rw =
     Inr (probeChain ns nxt, rw\<lparr>trace := trace rw @ map Called (rev ns)\<rparr>)"
proof (induction ns arbitrary: nxt rw rule: rev_induct)
  case Nil
  then show ?case by (simp add: probeChain_def)
next
  case (snoc x xs)
  have "composeLoop (map (\<lambda>n. Some (probe n)) (xs @ [x])) (length (xs @ [x])) req nxt rw
      = composeLoop (map (\<lambda>n. Some (probe n)) xs) (length xs) req
          (Some (HttpResponseFunc (\<lambda>rw. call_ServeHTTP nxt (logEvent (Entered x) rw))))
          (logEvent (Called x) rw)"
    using composeLoop_snoc [of "map (\<lambda>n. Some (probe n)) xs" "Some (probe x)" req nxt rw]
    by (simp add: probe_def)
  then show ?case
    using snoc.IH by (simp add: probeChain_def logEvent_def del: composeLoop.simps)
qed

lemma serve_probeChain:
  "call_ServeHTTP (probeChain ns nxt) rw
     = call_ServeHTTP nxt (rw\<lparr>trace := trace rw @ map Entered ns\<rparr>)"
  by (induction ns arbitrary: rw)
     (simp_all add: probeChain_def call_ServeHTTP_def logEvent_def split: option.splits)

lemma runPipeline_probes:
  "runPipeline (map (\<lambda>n. Some (probe n)) ls) (map (\<lambda>n. Some (probe n)) gs) req nxt rw =
     call_ServeHTTP nxt
       (rw\<lparr>trace := trace rw @ map Called (rev ls) @ map Called (rev gs)
                          @ map Entered gs @ map Entered ls\<rparr>)"
  using composeLoop_probes [of ls req nxt rw] composeLoop_probes [of gs req "probeChain ls nxt"]
  by (simp add: runPipeline_def serve_probeChain)

text \<open>
  Claim C1, as it is stated: with global middlewares G1, G2 and route middlewares L1, L2
  that log when they are entered, the log reads G1, G2, L1, L2, and the endpoint runs last.
  It fails for middlewares that log in the body of the middleware function, as
  \<open>logOnEntry\<close> does: the router calls the middleware functions while it composes the
  pipeline, the route's from the last to the first and then the global ones from the last
  to the first, so the log reads L2, L1, G2, G1 before the endpoint runs.
\<close>

theorem entry_order_counterexample:
  "map_sum id trace
     (Router_ServeHTTP exampleMethodToInt (\<lambda>p. p)
        (exampleRouter [Some (logOnEntry ''G1''), Some (logOnEntry ''G2'')]
                       [Some (logOnEntry ''L1''), Some (logOnEntry ''L2'')] probeEndpoint)
        tracedRecorder (exampleRequest ''GET'' ''/users/42''))
   = Inr [Called ''L2'', Called ''L1'', Called ''G2'', Called ''G1'', EndpointRan]"
  by (simp add: Router_ServeHTTP_def runPipeline_def lookupRoute_def sanitizedPath_def
      NewHttpRequest_def endpointResponse_def call_ServeHTTP_def index_def
      exampleMethodToInt_def exampleNode_def exampleRouter_def exampleRequest_def
      tracedRecorder_def logOnEntry_def probeEndpoint_def logEvent_def)

text \<open>
  Claim C1, amended. On a matched route with global middlewares \<open>gs\<close> and route middlewares
  \<open>ls\<close>, the router first calls the middleware functions, the route's from the last to the
  first and then the global ones from the last to the first; the responses they return are
  nested with the first global middleware outermost and the last route middleware around
  the endpoint, so when the pipeline is served the responses are entered in the order
  \<open>gs\<close>, \<open>ls\<close> and the endpoint runs last. (The state that is left holds the trace and, as
  route parameters, the bindings of the resolution.)
\<close>

theorem middleware_order:
  assumes "findNode router (sanitizedPath path_Clean router request) = (Some nd, params)"
      and "handler nd (methodToInt (http_Method request)) = Some probeEndpoint"
      and "middlewares nd (methodToInt (http_Method request)) = map (\<lambda>n. Some (probe n)) ls"
      and "globalMiddlewares router = map (\<lambda>n. Some (probe n)) gs"
  shows "Router_ServeHTTP methodToInt path_Clean router rw request =
     Inr (rw\<lparr>RouteParams := params,
             trace := trace rw @ map Called (rev ls) @ map Called (rev gs)
                         @ map Entered gs @ map Entered ls @ [EndpointRan]\<rparr>)"
  using assms
  by (simp add: Router_ServeHTTP_def NewHttpRequest_def lookupRoute_def runPipeline_probes
      call_ServeHTTP_def endpointResponse_def probeEndpoint_def logEvent_def)

theorem middleware_order_witness:
  "Router_ServeHTTP exampleMethodToInt (\<lambda>p. p)
        (exampleRouter [Some (probe ''G1''), Some (probe ''G2'')]
                       [Some (probe ''L1''), Some (probe ''L2'')] probeEndpoint)
        tracedRecorder (exampleRequest ''GET'' ''/users/42'')
   = Inr (tracedRecorder\<lparr>RouteParams := [''id'' \<mapsto> ''42''], trace :=
        [Called ''L2'', Called ''L1'', Called ''G2'', Called ''G1'',
         Entered ''G1'', Entered ''G2'', Entered ''L1'', Entered ''L2'', EndpointRan]\<rparr>)"
  using middleware_order [of
      "exampleRouter [Some (probe ''G1''), Some (probe ''G2'')]
                     [Some (probe ''L1''), Some (probe ''L2'')] probeEndpoint"
      "\<lambda>p. p" "exampleRequest ''GET'' ''/users/42''"
      "exampleNode [Some (probe ''L1''), Some (probe ''L2'')] probeEndpoint"
      "[''id'' \<mapsto> ''42'']" exampleMethodToInt "[''L1'', ''L2'']" "[''G1'', ''G2'']"
      tracedRecorder]
  by (simp add: exampleRouter_def exampleNode_def exampleRequest_def exampleMethodToInt_def
      sanitizedPath_def tracedRecorder_def)


section \<open>The not-found fallback (handler.go)\<close>

text \<open>
  Claim C2, as it is stated: whenever the path resolves to no node, or to a node without an
  endpoint for the method, the dispatcher invokes the configured not-found endpoint. It
  fails when a middleware short-circuits: on the unknown path \<^verbatim>\<open>/nope\<close>, with the global
  \<open>denyMiddleware\<close> and a not-found endpoint that records its run, the response is the 401
  of the middleware and the trace is empty; without the middleware the same request leaves
  the record of the not-found endpoint.
\<close>

theorem notFound_counterexample:
  "map_sum id (\<lambda>rw. (Code rw, Body rw, trace rw))
     (Router_ServeHTTP exampleMethodToInt (\<lambda>p. p)
        (withNotFound probeEndpoint (exampleRouter [Some denyMiddleware] [] probeEndpoint))
        tracedRecorder (exampleRequest ''GET'' ''/nope''))
   = Inr (401, ''no'', [])
 \<and> map_sum id (\<lambda>rw. (Code rw, Body rw, trace rw))
     (Router_ServeHTTP exampleMethodToInt (\<lambda>p. p)
        (withNotFound probeEndpoint (exampleRouter [] [] probeEndpoint))
        tracedRecorder (exampleRequest ''GET'' ''/nope''))
   = Inr (200, [], [EndpointRan])"
  by (simp add: Router_ServeHTTP_def runPipeline_def lookupRoute_def sanitizedPath_def
      NewHttpRequest_def endpointResponse_def call_ServeHTTP_def index_def
      exampleMethodToInt_def exampleNode_def exampleRouter_def exampleRequest_def
      withNotFound_def tracedRecorder_def denyMiddleware_def probeEndpoint_def logEvent_def
      Write_def WriteHeader_def rw_Header_Set_def
      String_def ResponseHeaderContentType_def ContentTypeTextPlain_def)

text \<open>
  Claim C2, amended. Let a not-found endpoint be configured. Whenever the matcher returns
  no node, or a node with no endpoint in the slot of the request's method number (whatever
  \<^verbatim>\<open>methodToInt\<close> makes of the method string, known or not), the dispatcher composes the
  pipeline around the not-found endpoint: the innermost handler of the pipeline is never
  \<^verbatim>\<open>nil\<close>, it is the call of the configured not-found endpoint on the request, followed by
  serving the response that endpoint returns. Both cases collapse to this one fallback. The
  not-found endpoint is invoked when the innermost handler is served: always when no
  middleware stands before it, and otherwise unless a middleware short-circuits.
\<close>

theorem notFound_fallback:
  assumes "RouteNotFoundHandler (Configuration router) = Some notFound"
      and "findNode router (sanitizedPath path_Clean router request) = (nd, params)"
      and "nd = None \<or> (\<exists>n. nd = Some n \<and> handler n (methodToInt (http_Method request)) = None)"
  shows "Router_ServeHTTP methodToInt path_Clean router rw request =
           runPipeline
             (case nd of None \<Rightarrow> [] | Some n \<Rightarrow> middlewares n (methodToInt (http_Method request)))
             (globalMiddlewares router)
             (fst (NewHttpRequest rw request))
             (Some (HttpResponseFunc (\<lambda>s.
                case notFound (fst (NewHttpRequest rw request)) s of
                  Inl p \<Rightarrow> Inl p
                | Inr (response, s) \<Rightarrow> call_ServeHTTP response s)))
             (rw\<lparr>RouteParams := params\<rparr>)
       \<and> ((case nd of None \<Rightarrow> [] | Some n \<Rightarrow> middlewares n (methodToInt (http_Method request))) = []
            \<and> globalMiddlewares router = []
          \<longrightarrow> Router_ServeHTTP methodToInt path_Clean router rw request =
                (case notFound (fst (NewHttpRequest rw request)) (rw\<lparr>RouteParams := params\<rparr>) of
                   Inl p \<Rightarrow> Inl p
                 | Inr (response, s) \<Rightarrow> call_ServeHTTP response s))"
proof -
  have pipeline: "Router_ServeHTTP methodToInt path_Clean router rw request =
           runPipeline
             (case nd of None \<Rightarrow> [] | Some n \<Rightarrow> middlewares n (methodToInt (http_Method request)))
             (globalMiddlewares router)
             (fst (NewHttpRequest rw request))
             (Some (HttpResponseFunc (\<lambda>s.
                case notFound (fst (NewHttpRequest rw request)) s of
                  Inl p \<Rightarrow> Inl p
                | Inr (response, s) \<Rightarrow> call_ServeHTTP response s)))
             (rw\<lparr>RouteParams := params\<rparr>)"
    using assms
    by (auto simp add: Router_ServeHTTP_def lookupRoute_def NewHttpRequest_def
        endpointResponse_def Let_def split: option.splits)
  have direct: "(case nd of None \<Rightarrow> [] | Some n \<Rightarrow> middlewares n (methodToInt (http_Method request))) = []
            \<and> globalMiddlewares router = []
          \<longrightarrow> Router_ServeHTTP methodToInt path_Clean router rw request =
                (case notFound (fst (NewHttpRequest rw request)) (rw\<lparr>RouteParams := params\<rparr>) of
                   Inl p \<Rightarrow> Inl p
                 | Inr (response, s) \<Rightarrow> call_ServeHTTP response s)"
    unfolding pipeline
    by (simp add: runPipeline_def call_ServeHTTP_def)
  show ?thesis
    using pipeline direct by (rule conjI)
qed

theorem notFound_fallback_witness:
  "RouteNotFoundHandler (Configuration (exampleRouter [] [] echoEndpoint :: unit Router))
     = Some notFoundEndpoint
   \<and> findNode (exampleRouter [] [] echoEndpoint :: unit Router)
        (sanitizedPath (\<lambda>p. p) (exampleRouter [] [] echoEndpoint :: unit Router)
           (exampleRequest ''BREW'' ''/users/42''))
     = (Some (exampleNode [] echoEndpoint), [''id'' \<mapsto> ''42''])
   \<and> handler (exampleNode [] echoEndpoint :: unit node) (exampleMethodToInt ''BREW'') = None
   \<and> Router_ServeHTTP exampleMethodToInt (\<lambda>p. p) (exampleRouter [] [] echoEndpoint)
        NewState (exampleRequest ''BREW'' ''/users/42'')
     = (case notFoundEndpoint (fst (NewHttpRequest NewState (exampleRequest ''BREW'' ''/users/42'')))
              (NewState\<lparr>RouteParams := [''id'' \<mapsto> ''42'']\<rparr>) of
          Inl p \<Rightarrow> Inl p
        | Inr (response, rw) \<Rightarrow> call_ServeHTTP response rw)
   \<and> map_sum id Code
        (Router_ServeHTTP exampleMethodToInt (\<lambda>p. p) (exampleRouter [] [] echoEndpoint)
           NewState (exampleRequest ''BREW'' ''/users/42'')) = Inr 404"
  using notFound_fallback [of "exampleRouter [] [] echoEndpoint :: unit Router" notFoundEndpoint
      "\<lambda>p. p" "exampleRequest ''BREW'' ''/users/42''" "Some (exampleNode [] echoEndpoint)"
      "[''id'' \<mapsto> ''42'']" exampleMethodToInt NewState]
  by (simp add: sanitizedPath_def NewHttpRequest_def runPipeline_def call_ServeHTTP_def
      exampleMethodToInt_def exampleNode_def exampleRouter_def exampleRequest_def
      notFoundEndpoint_def WriteHeader_def NewState_def Status_def)


section \<open>Short circuit (handler.go)\<close>

lemma stateAfter_simps [simp]:
  "stateAfter (Inl p) = Inl p" "stateAfter (Inr (x, s)) = Inr s"
  by (simp_all add: stateAfter_def)

lemma composeLoop_quiet:
  assumes quiet: "\<forall>mw nxt nxt' rw. Some mw \<in> set inner \<longrightarrow>
                    stateAfter (mw req nxt rw) = stateAfter (mw req nxt' rw)"
  shows "stateAfter (composeLoop inner (length inner) req nxt rw)
       = stateAfter (composeLoop inner (length inner) req nxt' rw)"
  using quiet
proof (induction inner arbitrary: nxt nxt' rw rule: rev_induct)
  case Nil
  then show ?case by simp
next
  case (snoc x xs)
  have rest: "\<forall>mw nxt nxt' rw. Some mw \<in> set xs \<longrightarrow>
                stateAfter (mw req nxt rw) = stateAfter (mw req nxt' rw)"
    using snoc.prems by auto
  have IH: "\<And>n n' rw. stateAfter (composeLoop xs (length xs) req n rw)
                       = stateAfter (composeLoop xs (length xs) req n' rw)"
    by (rule snoc.IH [OF rest])
  show ?case
  proof (cases x)
    case None
    then show ?thesis
      using composeLoop_snoc [of xs x req] by simp
  next
    case (Some mw)
    have q: "stateAfter (mw req nxt rw) = stateAfter (mw req nxt' rw)"
      using snoc.prems Some by simp
    show ?thesis
    proof (cases "mw req nxt rw")
      case (Inl p)
      then have "mw req nxt' rw = Inl p"
        using q by (cases "mw req nxt' rw") auto
      then show ?thesis
        using Inl Some composeLoop_snoc [of xs x req] by simp
    next
      case (Inr res)
      obtain n1 rw1 where res: "res = (n1, rw1)" by (cases res)
      obtain n2 where other: "mw req nxt' rw = Inr (n2, rw1)"
        using q Inr res by (cases "mw req nxt' rw") auto
      show ?thesis
        using Inr res other Some composeLoop_snoc [of xs x req] IH [of n1 rw1 n2] by simp
    qed
  qed
qed

text \<open>
  Claim C3, as it is stated: when a middleware returns a response without using \<open>next\<close>, the
  response of the pipeline is exactly the response of that middleware. It fails when a
  middleware outside it wraps what it is given: with the global \<open>corsMiddleware\<close> and the
  route's \<open>denyMiddleware\<close> the response that is sent carries the header \<open>X\<close> of the wrapper,
  which the response of \<open>denyMiddleware\<close>, served alone, does not have.
\<close>

theorem short_circuit_counterexample:
  "map_sum id (\<lambda>rw. (Code rw, Body rw, Header_Get (snapHeader rw) ''X''))
     (Router_ServeHTTP exampleMethodToInt (\<lambda>p. p)
        (exampleRouter [Some corsMiddleware] [Some denyMiddleware] echoEndpoint)
        NewState (exampleRequest ''GET'' ''/users/42''))
   = Inr (401, ''no'', ''1'')
 \<and> map_sum id (\<lambda>rw. (Code rw, Body rw, Header_Get (snapHeader rw) ''X''))
     (ServeHTTP (String 401 ''no'') NewState)
   = Inr (401, ''no'', [])"
  by (simp add: Router_ServeHTTP_def runPipeline_def lookupRoute_def sanitizedPath_def
      NewHttpRequest_def endpointResponse_def call_ServeHTTP_def index_def
      exampleMethodToInt_def exampleNode_def exampleRouter_def exampleRequest_def
      corsMiddleware_def denyMiddleware_def
      Write_def WriteHeader_def rw_Header_Get_def rw_Header_Set_def Header_Get_def
      Header_Set_def NewState_def headerResponse_loop_def
      String_def WithHeaders_def ResponseHeaderContentType_def ContentTypeTextPlain_def)

text \<open>
  A middleware inside the one that drops \<open>next\<close> is called first and holds the endpoint's
  response as its own \<open>next\<close>: if it serves it during that call, as \<open>eagerMiddleware\<close> does,
  the endpoint runs although a middleware outside it short-circuits.
\<close>

lemma eager_inner_middleware_runs_endpoint:
  "map_sum id trace
     (Router_ServeHTTP exampleMethodToInt (\<lambda>p. p)
        (exampleRouter [Some denyMiddleware] [Some eagerMiddleware] probeEndpoint)
        tracedRecorder (exampleRequest ''GET'' ''/users/42''))
   = Inr [EndpointRan]"
  by (simp add: Router_ServeHTTP_def runPipeline_def lookupRoute_def sanitizedPath_def
      NewHttpRequest_def endpointResponse_def call_ServeHTTP_def index_def
      exampleMethodToInt_def exampleNode_def exampleRouter_def exampleRequest_def
      tracedRecorder_def denyMiddleware_def eagerMiddleware_def probeEndpoint_def logEvent_def
      Write_def WriteHeader_def rw_Header_Get_def rw_Header_Set_def Header_Get_def
      Header_Set_def NewState_def headerResponse_loop_def
      String_def ResponseHeaderContentType_def ContentTypeTextPlain_def)

text \<open>
  Claim C3, amended. Let the middleware \<open>m\<close> of the chain (the global middlewares followed by
  the route's) return its response without using \<open>next\<close>, and let no middleware inside it
  serve its \<open>next\<close> while the pipeline is composed (what its call does to the state does not
  depend on \<open>next\<close>). Then the run does not depend on the response of the endpoint, which is
  never served: the pipeline serves the response of \<open>m\<close> as the middlewares outside \<open>m\<close> wrap
  it, and exactly the response of \<open>m\<close> when none is outside it.
\<close>

theorem short_circuit:
  assumes chain: "globals @ mws = outer @ Some m # inner"
      and ignores: "\<forall>nxt nxt' rw. m req nxt rw = m req nxt' rw"
      and quiet: "\<forall>mw nxt nxt' rw. Some mw \<in> set inner \<longrightarrow>
                    stateAfter (mw req nxt rw) = stateAfter (mw req nxt' rw)"
  shows "runPipeline mws globals req nxt rw =
     (case composeLoop inner (length inner) req None rw of
        Inl p \<Rightarrow> Inl p
      | Inr (unused, rw1) \<Rightarrow>
          (case m req None rw1 of
             Inl p \<Rightarrow> Inl p
           | Inr (response, rw2) \<Rightarrow> runPipeline [] outer req response rw2))"
proof -
  have shape: "composeLoop (outer @ Some m # inner) (length (outer @ Some m # inner)) req nxt rw =
     (case composeLoop inner (length inner) req nxt rw of
        Inl p \<Rightarrow> Inl p
      | Inr (n1, rw1) \<Rightarrow>
          (case m req n1 rw1 of
             Inl p \<Rightarrow> Inl p
           | Inr (response, rw2) \<Rightarrow> composeLoop outer (length outer) req response rw2))"
    using composeLoop_concat [of outer "[Some m] @ inner" req nxt rw]
          composeLoop_concat [of "[Some m]" inner req nxt rw]
    by (simp add: composeLoop_single del: composeLoop.simps split: sum.splits prod.splits)
  have same: "stateAfter (composeLoop inner (length inner) req nxt rw)
            = stateAfter (composeLoop inner (length inner) req None rw)"
    by (rule composeLoop_quiet [OF quiet])
  have m: "\<And>n rw. m req n rw = m req None rw"
    using ignores by blast
  show ?thesis
  proof (cases "composeLoop inner (length inner) req nxt rw")
    case (Inl p)
    then have "composeLoop inner (length inner) req None rw = Inl p"
      using same by (cases "composeLoop inner (length inner) req None rw") auto
    then show ?thesis
      unfolding runPipeline_chain chain shape
      using Inl by simp
  next
    case (Inr res)
    obtain n1 rw1 where res: "res = (n1, rw1)" by (cases res)
    obtain n0 where none: "composeLoop inner (length inner) req None rw = Inr (n0, rw1)"
      using same Inr res by (cases "composeLoop inner (length inner) req None rw") auto
    show ?thesis
      unfolding runPipeline_chain chain shape
      using Inr res none m [of n1 rw1]
      by (simp add: runPipeline_def split: sum.splits prod.splits)
  qed
qed

theorem short_circuit_witness:
  "runPipeline [Some denyMiddleware, Some passMiddleware] [Some corsMiddleware]
     (fst (NewHttpRequest NewState (exampleRequest ''GET'' ''/users/42'')))
     (Some (endpointResponse (Some echoEndpoint)
        (fst (NewHttpRequest NewState (exampleRequest ''GET'' ''/users/42'')))))
     NewState
   = ServeHTTP (WithHeaders [(''X'', ''1'')] (Some (String 401 ''no''))) NewState"
  using short_circuit [of "[Some corsMiddleware]" "[Some denyMiddleware, Some passMiddleware]"
      "[Some corsMiddleware]" denyMiddleware "[Some passMiddleware]"
      "fst (NewHttpRequest NewState (exampleRequest ''GET'' ''/users/42''))"
      "Some (endpointResponse (Some echoEndpoint)
        (fst (NewHttpRequest NewState (exampleRequest ''GET'' ''/users/42''))))"
      NewState]
  by (simp add: runPipeline_def index_def call_ServeHTTP_def corsMiddleware_def
      denyMiddleware_def passMiddleware_def)


section \<open>The route parameters (handler.go)\<close>

text \<open>
  For every router, the pipeline (the calls of the middleware functions, and then the
  serving of what they built) starts in the state in which the map of route parameters
  holds the bindings of the resolution.
\<close>

lemma RouteParams_written_before_pipeline:
  assumes "findNode router (sanitizedPath path_Clean router request) = (nd, params)"
  shows "Router_ServeHTTP methodToInt path_Clean router rw request =
           runPipeline
             (snd (lookupRoute router nd (methodToInt (http_Method request))))
             (globalMiddlewares router)
             (fst (NewHttpRequest rw request))
             (Some (endpointResponse (fst (lookupRoute router nd (methodToInt (http_Method request))))
                (fst (NewHttpRequest rw request))))
             (rw\<lparr>RouteParams := params\<rparr>)"
  using assms
  by (simp add: Router_ServeHTTP_def NewHttpRequest_def Let_def split: prod.splits)

lemma composeLoop_watchers:
  "composeLoop (map (\<lambda>n. Some (watcher n)) ns) (length ns) req nxt rw =
     Inr (watcherChain ns nxt,
          rw\<lparr>sightings := sightings rw @ map (\<lambda>n. CallSaw n (RouteParams rw)) (rev ns)\<rparr>)"
proof (induction ns arbitrary: nxt rw rule: rev_induct)
  case Nil
  then show ?case by (simp add: watcherChain_def)
next
  case (snoc x xs)
  have "composeLoop (map (\<lambda>n. Some (watcher n)) (xs @ [x])) (length (xs @ [x])) req nxt rw
      = composeLoop (map (\<lambda>n. Some (watcher n)) xs) (length xs) req
          (Some (HttpResponseFunc
                   (\<lambda>rw. call_ServeHTTP nxt (logSighting (ServeSaw x (RouteParams rw)) rw))))
          (logSighting (CallSaw x (RouteParams rw)) rw)"
    using composeLoop_snoc [of "map (\<lambda>n. Some (watcher n)) xs" "Some (watcher x)" req nxt rw]
    by (simp add: watcher_def)
  then show ?case
    using snoc.IH by (simp add: watcherChain_def logSighting_def del: composeLoop.simps)
qed

lemma serve_watcherChain:
  "call_ServeHTTP (watcherChain ns nxt) rw
     = call_ServeHTTP nxt
         (rw\<lparr>sightings := sightings rw @ map (\<lambda>n. ServeSaw n (RouteParams rw)) ns\<rparr>)"
  by (induction ns arbitrary: rw)
     (simp_all add: watcherChain_def call_ServeHTTP_def logSighting_def split: option.splits)

lemma runPipeline_watchers:
  "runPipeline (map (\<lambda>n. Some (watcher n)) ls) (map (\<lambda>n. Some (watcher n)) gs) req nxt rw =
     call_ServeHTTP nxt
       (rw\<lparr>sightings := sightings rw
                @ map (\<lambda>n. CallSaw n (RouteParams rw)) (rev ls)
                @ map (\<lambda>n. CallSaw n (RouteParams rw)) (rev gs)
                @ map (\<lambda>n. ServeSaw n (RouteParams rw)) gs
                @ map (\<lambda>n. ServeSaw n (RouteParams rw)) ls\<rparr>)"
  using composeLoop_watchers [of ls req nxt rw]
        composeLoop_watchers [of gs req "watcherChain ls nxt"]
  by (simp add: runPipeline_def serve_watcherChain)

text \<open>
  Claim C8, as it is stated: the bindings are written before any middleware runs, so every
  middleware and the endpoint observe the extracted bindings. The map they are written to
  is shared by all copies of the request and every middleware can write it: with the global
  \<open>rewriteMiddleware\<close> the resolution of \<^verbatim>\<open>/users/42\<close> binds \<open>id\<close> to \<open>42\<close>, and the endpoint
  reads \<open>7\<close>.
\<close>

theorem RouteParams_counterexample:
  "snd (findNode (exampleRouter [Some rewriteMiddleware] [] echoEndpoint :: unit Router)
         ''/users/42'') ''id'' = Some ''42''
 \<and> map_sum id Body
     (Router_ServeHTTP exampleMethodToInt (\<lambda>p. p)
        (exampleRouter [Some rewriteMiddleware] [] echoEndpoint)
        NewState (exampleRequest ''GET'' ''/users/42''))
   = Inr ''7''"
  by (simp add: Router_ServeHTTP_def runPipeline_def lookupRoute_def sanitizedPath_def
      NewHttpRequest_def endpointResponse_def call_ServeHTTP_def index_def
      exampleMethodToInt_def exampleNode_def exampleRouter_def exampleRequest_def
      rewriteMiddleware_def echoEndpoint_def NewState_def
      Write_def WriteHeader_def rw_Header_Set_def String_def
      RouteParamReader_GetDefault_def RouteParamReader_Get_def)

text \<open>
  Claim C8, amended. The bindings that path resolution returns are written into the map of
  route parameters of the request before the first middleware is called: the pipeline
  starts in a state whose map holds them. The map is shared and can be written, so a
  middleware or the endpoint reads these bindings unless a middleware that ran before it
  has written the map: with middlewares that do not write it, every middleware, when its
  function is called and when the response it returned is served, and the endpoint read
  exactly the bindings of the resolution. (This holds on a matched route and on the
  not-found fallback alike: the hypothesis names what the lookup selects.)
\<close>

theorem RouteParams_written_first:
  assumes "findNode router (sanitizedPath path_Clean router request) = (nd, params)"
      and "lookupRoute router nd (methodToInt (http_Method request))
             = (Some watcherEndpoint, map (\<lambda>n. Some (watcher n)) ls)"
      and "globalMiddlewares router = map (\<lambda>n. Some (watcher n)) gs"
  shows "Router_ServeHTTP methodToInt path_Clean router rw request =
     Inr (rw\<lparr>RouteParams := params,
             sightings := sightings rw
                @ map (\<lambda>n. CallSaw n params) (rev ls) @ map (\<lambda>n. CallSaw n params) (rev gs)
                @ map (\<lambda>n. ServeSaw n params) gs @ map (\<lambda>n. ServeSaw n params) ls
                @ [EndpointSaw params]\<rparr>)"
  unfolding RouteParams_written_before_pipeline [OF assms(1)] assms(2) assms(3)
  by (simp add: runPipeline_watchers call_ServeHTTP_def endpointResponse_def
      watcherEndpoint_def logSighting_def)

theorem RouteParams_written_first_witness:
  "Router_ServeHTTP exampleMethodToInt (\<lambda>p. p)
        (exampleRouter [Some (watcher ''G1''), Some (watcher ''G2'')] [Some (watcher ''L1'')]
           watcherEndpoint)
        watchedRecorder (exampleRequest ''GET'' ''/users/42'')
   = Inr (watchedRecorder\<lparr>RouteParams := [''id'' \<mapsto> ''42''], sightings :=
        [CallSaw ''L1'' [''id'' \<mapsto> ''42''],
         CallSaw ''G2'' [''id'' \<mapsto> ''42''], CallSaw ''G1'' [''id'' \<mapsto> ''42''],
         ServeSaw ''G1'' [''id'' \<mapsto> ''42''], ServeSaw ''G2'' [''id'' \<mapsto> ''42''],
         ServeSaw ''L1'' [''id'' \<mapsto> ''42''],
         EndpointSaw [''id'' \<mapsto> ''42'']]\<rparr>)"
  using RouteParams_written_first [of
      "exampleRouter [Some (watcher ''G1''), Some (watcher ''G2'')] [Some (watcher ''L1'')]
         watcherEndpoint"
      "\<lambda>p. p" "exampleRequest ''GET'' ''/users/42''"
      "Some (exampleNode [Some (watcher ''L1'')] watcherEndpoint)"
      "[''id'' \<mapsto> ''42'']" exampleMethodToInt "[''L1'']" "[''G1'', ''G2'']"
      watchedRecorder]
  by (simp add: exampleRouter_def exampleNode_def exampleRequest_def exampleMethodToInt_def
      sanitizedPath_def lookupRoute_def watchedRecorder_def)


section \<open>The header wrapper (response.go)\<close>

lemma headerResponse_loop_Get:
  "distinct (map fst headers) \<Longrightarrow>
   rw_Header_Get (headerResponse_loop headers rw) key =
     (if rw_Header_Get rw key \<noteq> [] then rw_Header_Get rw key
      else (case map_of headers key of None \<Rightarrow> [] | Some v \<Rightarrow> v))"
proof (induction headers arbitrary: rw)
  case Nil
  then show ?case by (simp add: headerResponse_loop_def)
next
  case (Cons kv headers)
  obtain k v where kv: "kv = (k, v)" by (cases kv)
  define rw1 where "rw1 = (if length (rw_Header_Get rw k) = 0 then rw_Header_Set k v rw else rw)"
  have step: "headerResponse_loop (kv # headers) rw = headerResponse_loop headers rw1"
    by (simp add: headerResponse_loop_def kv rw1_def)
  have IH: "rw_Header_Get (headerResponse_loop headers rw1) key =
     (if rw_Header_Get rw1 key \<noteq> [] then rw_Header_Get rw1 key
      else (case map_of headers key of None \<Rightarrow> [] | Some v \<Rightarrow> v))"
    using Cons.IH [of rw1] Cons.prems by simp
  have absent: "map_of headers k = None"
    using Cons.prems kv by (simp add: map_of_eq_None_iff)
  show ?case
    unfolding step IH
    using absent
    by (auto simp add: kv rw1_def rw_Header_Get_def rw_Header_Set_def Header_Get_def
        Header_Set_def)
qed

lemma headerResponse_loop_fields:
  "wroteHeader (headerResponse_loop headers rw) = wroteHeader rw
   \<and> Code (headerResponse_loop headers rw) = Code rw
   \<and> snapHeader (headerResponse_loop headers rw) = snapHeader rw
   \<and> Body (headerResponse_loop headers rw) = Body rw"
  unfolding headerResponse_loop_def
  by (induction headers arbitrary: rw) (simp_all add: rw_Header_Set_def split: prod.splits)

text \<open>
  Claim C5, as it is stated: an outer \<^verbatim>\<open>WithHeaders\<close> does not override the value that an inner
  layer sets. It fails for two nested wrappers with the same key: the inner wrapper, served
  alone, sets \<open>X\<close> to \<open>2\<close>; under the outer wrapper with \<open>X = 1\<close> the header map and the headers
  that are sent hold \<open>X = 1\<close>.
\<close>

theorem WithHeaders_counterexample:
  "map_sum id (\<lambda>rw. (rw_Header_Get rw ''X'', Header_Get (snapHeader rw) ''X''))
     (ServeHTTP (WithHeaders [(''X'', ''2'')] (Some (Status 200))) NewRecorder)
   = Inr (''2'', ''2'')
 \<and> map_sum id (\<lambda>rw. (rw_Header_Get rw ''X'', Header_Get (snapHeader rw) ''X''))
     (ServeHTTP (WithHeaders [(''X'', ''1'')] (Some (WithHeaders [(''X'', ''2'')] (Some (Status 200)))))
        NewRecorder)
   = Inr (''1'', ''1'')"
  by (simp add: Write_def WriteHeader_def rw_Header_Get_def rw_Header_Set_def Header_Get_def
      Header_Set_def NewRecorder_def headerResponse_loop_def
      WithHeaders_def Status_def)

text \<open>
  Claim C5, amended. \<^verbatim>\<open>WithHeaders\<close> writes its headers before the wrapped response is
  served, and writes a header only where the writer holds no value for it at that moment:
  a header that already has a value keeps it, every other header of the wrapper is set.
  The first write wins in the order of execution, which is from the outside in: of two
  nested wrappers with the same key the value of the outer one stays, and the inner one
  changes nothing.
\<close>

theorem WithHeaders_first_write_wins:
  "ServeHTTP (WithHeaders headers response) rw =
     (case response of
        None \<Rightarrow> Inr (headerResponse_loop headers rw)
      | Some r \<Rightarrow> ServeHTTP r (headerResponse_loop headers rw))
   \<and> (distinct (map fst headers) \<longrightarrow>
        rw_Header_Get (headerResponse_loop headers rw) key =
          (if rw_Header_Get rw key \<noteq> [] then rw_Header_Get rw key
           else (case map_of headers key of None \<Rightarrow> [] | Some v \<Rightarrow> v)))
   \<and> (v \<noteq> [] \<and> rw_Header_Get rw key = [] \<longrightarrow>
        ServeHTTP (WithHeaders [(key, v)] (Some (WithHeaders [(key, v')] response))) rw
          = ServeHTTP (WithHeaders [(key, v)] response) rw)"
proof (intro conjI impI)
  show "ServeHTTP (WithHeaders headers response) rw =
     (case response of
        None \<Rightarrow> Inr (headerResponse_loop headers rw)
      | Some r \<Rightarrow> ServeHTTP r (headerResponse_loop headers rw))"
    by (simp add: WithHeaders_def Let_def)
next
  assume "distinct (map fst headers)"
  then show "rw_Header_Get (headerResponse_loop headers rw) key =
          (if rw_Header_Get rw key \<noteq> [] then rw_Header_Get rw key
           else (case map_of headers key of None \<Rightarrow> [] | Some v \<Rightarrow> v))"
    by (rule headerResponse_loop_Get)
next
  assume "v \<noteq> [] \<and> rw_Header_Get rw key = []"
  then show "ServeHTTP (WithHeaders [(key, v)] (Some (WithHeaders [(key, v')] response))) rw
          = ServeHTTP (WithHeaders [(key, v)] response) rw"
    by (cases v)
       (simp_all add: WithHeaders_def headerResponse_loop_def rw_Header_Get_def
          rw_Header_Set_def Header_Get_def Header_Set_def)
qed

theorem WithHeaders_first_write_wins_witness:
  "distinct (map fst [(''X'', ''1''), (''Y'', ''3'')])
   \<and> rw_Header_Get (headerResponse_loop [(''X'', ''1''), (''Y'', ''3'')]
        (rw_Header_Set ''X'' ''0'' NewRecorder)) ''X'' = ''0''
   \<and> rw_Header_Get (headerResponse_loop [(''X'', ''1''), (''Y'', ''3'')]
        (rw_Header_Set ''X'' ''0'' NewRecorder)) ''Y'' = ''3''
   \<and> ServeHTTP (WithHeaders [(''X'', ''1'')] (Some (WithHeaders [(''X'', ''2'')] (Some (Status 200)))))
        NewRecorder
     = ServeHTTP (WithHeaders [(''X'', ''1'')] (Some (Status 200))) NewRecorder"
  using WithHeaders_first_write_wins [of "[(''X'', ''1''), (''Y'', ''3'')]" None
          "rw_Header_Set ''X'' ''0'' NewRecorder" "''X''" "''1''" "''2''"]
        WithHeaders_first_write_wins [of "[(''X'', ''1''), (''Y'', ''3'')]" None
          "rw_Header_Set ''X'' ''0'' NewRecorder" "''Y''" "''1''" "''2''"]
        WithHeaders_first_write_wins [of "[]" "Some (Status 200)" NewRecorder
          "''X''" "''1''" "''2''"]
  by (simp add: rw_Header_Get_def rw_Header_Set_def Header_Get_def Header_Set_def
      NewRecorder_def)


section \<open>Content types (response.go)\<close>

text \<open>
  The string, JSON and XML responses call \<^verbatim>\<open>WriteHeader\<close> first and set the Content-Type
  afterwards. The headers that are sent are the snapshot of the first \<^verbatim>\<open>WriteHeader\<close>: for
  every writer and every code the writer accepts, they are what they were before the
  response set its Content-Type.
\<close>

lemma content_type_set_after_commit:
  "r \<in> {stringResponse code d, jsonResponse code d, xmlResponse code d} \<Longrightarrow>
   wroteHeader rw \<or> (100 \<le> code \<and> code \<le> 999) \<Longrightarrow>
   \<exists>rw'. ServeHTTP r rw = Inr rw'
        \<and> snapHeader rw' = (if wroteHeader rw then snapHeader rw else HeaderMap rw)"
  by (auto simp add: Write_def WriteHeader_def rw_Header_Set_def)

text \<open>
  Claim C6 says that the Content-Type of a String, Json or Xml response takes effect on the
  response that is sent. The code at \<^verbatim>\<open>String(200, "hi")\<close>, at \<^verbatim>\<open>Json(200, data)\<close> with the
  marshaled bytes \<^verbatim>\<open>{}\<close> and at \<^verbatim>\<open>Xml(200, data)\<close> with the marshaled bytes \<^verbatim>\<open><a/>\<close>, on a new
  writer: the header map holds the content type (first component), the headers that are
  sent hold none (second component).
\<close>

theorem content_type_not_sent:
  "map_sum id (\<lambda>rw. (rw_Header_Get rw ResponseHeaderContentType,
                      Header_Get (snapHeader rw) ResponseHeaderContentType))
     (ServeHTTP (String 200 ''hi'') NewRecorder) = Inr (''text/plain'', [])
 \<and> Json (\<lambda>d. Inr ''{}'') 200 () = Inr (jsonResponse 200 ''{}'')
 \<and> map_sum id (\<lambda>rw. (rw_Header_Get rw ResponseHeaderContentType,
                      Header_Get (snapHeader rw) ResponseHeaderContentType))
     (ServeHTTP (jsonResponse 200 ''{}'') NewRecorder) = Inr (''application/json'', [])
 \<and> Xml (\<lambda>d. Inr ''<a/>'') 200 () = Inr (xmlResponse 200 ''<a/>'')
 \<and> map_sum id (\<lambda>rw. (rw_Header_Get rw ResponseHeaderContentType,
                      Header_Get (snapHeader rw) ResponseHeaderContentType))
     (ServeHTTP (xmlResponse 200 ''<a/>'') NewRecorder) = Inr (''application/xml'', [])"
  by (simp add: Write_def WriteHeader_def rw_Header_Get_def rw_Header_Set_def Header_Get_def
      Header_Set_def NewRecorder_def headerResponse_loop_def
      ResponseHeaderContentType_def ContentTypeTextPlain_def
      ContentTypeApplicationJson_def ContentTypeApplicationXml_def
      String_def Json_def Xml_def)


section \<open>Message (response.go)\<close>

text \<open>
  Claim C10, as it is stated: for every status code, \<^verbatim>\<open>Message(code, message)\<close> renders the
  message as the body. It fails at a code that \<^verbatim>\<open>WriteHeader\<close> refuses: \<^verbatim>\<open>Message(0, "x")\<close> on a
  new writer panics and renders nothing.
\<close>

theorem Message_counterexample:
  "ServeHTTP (Message 0 ''x'') NewRecorder = Inl InvalidWriteHeaderCode"
  by (simp add: Message_def WriteHeader_def NewRecorder_def)

text \<open>
  Claim C10, amended. For every message and every status code from 200 to 999 other than 204
  and 304 (the codes that the writer accepts and that allow a body), \<^verbatim>\<open>Message(code,
  message)\<close>, served on a writer that has not committed, commits the code and renders the
  bytes of the message as the body exactly as they are: no JSON object around them and
  nothing escaped.
\<close>

theorem Message_body_verbatim:
  assumes "\<not> wroteHeader rw"
      and "200 \<le> code" and "code \<le> 999" and "code \<noteq> 204" and "code \<noteq> 304"
  shows "\<exists>rw'. ServeHTTP (Message code message) rw = Inr rw'
           \<and> Code rw' = code
           \<and> Body rw' = Body rw @ message"
  using assms
  by (simp add: Message_def Write_def WriteHeader_def rw_Header_Set_def)

theorem Message_body_verbatim_witness:
  \<open>\<not> wroteHeader NewRecorder \<and> (200::int) \<le> 200 \<and> (200::int) \<le> 999
   \<and> map_sum id (\<lambda>rw. (Code rw, Body rw)) (ServeHTTP (Message 200 ''say "hi"'') NewRecorder)
     = Inr (200, ''say "hi"'')\<close>
  using Message_body_verbatim [of NewRecorder 200 \<open>''say "hi"''\<close>]
  by (auto simp add: NewRecorder_def)


section \<open>Error responses (response.go)\<close>

text \<open>
  The widths of the range clause on some encodings: one byte of ASCII, two-, three- and
  four-byte code points, and the invalid encodings (an overlong form, a surrogate, a value
  beyond U+10FFFF, a truncated sequence) that advance by one byte.
\<close>

lemma decoderune_width_examples:
  "decoderune_width ''a'' = 1"
  "decoderune_width [CHR 0xC3, CHR 0xA9] = 2"
  "decoderune_width [CHR 0xE2, CHR 0x82, CHR 0xAC] = 3"
  "decoderune_width [CHR 0xF0, CHR 0x9F, CHR 0x98, CHR 0x80] = 4"
  "decoderune_width [CHR 0xC0, CHR 0x80] = 1"
  "decoderune_width [CHR 0xED, CHR 0xA0, CHR 0x80] = 1"
  "decoderune_width [CHR 0xF4, CHR 0x90, CHR 0x80, CHR 0x80] = 1"
  "decoderune_width [CHR 0xE2, CHR 0x82] = 1"
  by (simp_all add: continuation_def)

text \<open>
  The loop of \<^verbatim>\<open>Error\<close> replaces a double quote by the string \<^verbatim>\<open>"\""\<close>, which is the double
  quote itself: on a message of ASCII bytes the loop is the identity. (On other messages
  it keeps only the first byte of every multi-byte code point.)
\<close>

lemma Error_loop_ascii:
  "\<forall>c \<in> set e. (of_char c :: nat) < 0x80 \<Longrightarrow> Error_loop e = e"
  by (induction e) (simp_all add: Let_def)

lemma Error_loop_multibyte:
  "Error_loop [CHR 0xC3, CHR 0xA9] = [CHR 0xC3]"
  by (simp add: continuation_def)

text \<open>
  Claim C4 says that every double quote of the message is escaped in the body. The code at
  the error with the message \<^verbatim>\<open>a"b\<close>: the body is \<^verbatim>\<open>{"error":"a"b"}\<close>, the quote as it was.
\<close>

theorem Error_quote_not_escaped:
  \<open>Error 400 (Some ''a"b'') = Inr (jsonResponse 400 ''{"error":"a"b"}'')\<close>
  by (simp add: Error_def jsonLeft_def jsonRight_def)

text \<open>
  A failure of the marshaler never leaves \<^verbatim>\<open>Json\<close> or \<^verbatim>\<open>Xml\<close> as a panic: the builder
  returns the error response with the status 500, whose body holds the message as the loop
  of \<^verbatim>\<open>Error\<close> leaves it.
\<close>

lemma marshal_failure_is_500:
  "json_Marshal d = Inl err \<Longrightarrow>
     Json json_Marshal code d =
       Inr (jsonResponse 500 (jsonLeft @ Error_loop (''json marshall: '' @ err) @ jsonRight))"
  "xml_Marshal d = Inl err \<Longrightarrow>
     Xml xml_Marshal code d =
       Inr (jsonResponse 500 (jsonLeft @ Error_loop (''xml marshall: '' @ err) @ jsonRight))"
  by (simp_all add: Json_def Xml_def Error_def StatusInternalServerError_def)

text \<open>
  Claim C7 says that a marshaling failure becomes an error response with the status 500 and
  the escaped message. The code at a value whose marshaler fails with the message
  \<^verbatim>\<open>bad "x"\<close>: the response has the status 500, and its body holds the quotes of the message
  as they were.
\<close>

theorem marshal_failure_message_not_escaped:
  \<open>Json (\<lambda>d. Inl ''bad "x"'') 200 ()
     = Inr (jsonResponse 500 ''{"error":"json marshall: bad "x""}'')
   \<and> Xml (\<lambda>d. Inl ''bad "x"'') 200 ()
     = Inr (jsonResponse 500 ''{"error":"xml marshall: bad "x""}'')\<close>
  by (simp add: Json_def Xml_def Error_def jsonLeft_def jsonRight_def
      StatusInternalServerError_def)


section \<open>The accessors of request.go\<close>

text \<open>
  Claim C9. For every reader and key, \<^verbatim>\<open>BasicReader.Get\<close> returns the first value and
  \<^verbatim>\<open>true\<close> exactly when the key maps to a non-empty list, and the empty string and \<^verbatim>\<open>false\<close>
  when the key is absent or maps to an empty list. The result is never a panic: the index
  \<^verbatim>\<open>list[0]\<close> is only reached with a non-empty list.
\<close>

theorem BasicReader_Get_total:
  "BasicReader_Get reader key =
     Inr (case reader key of
            None \<Rightarrow> ([], False)
          | Some [] \<Rightarrow> ([], False)
          | Some (x # xs) \<Rightarrow> (x, True))"
  by (simp add: BasicReader_Get_def BasicReader_GetSlice_def index_def
      split: option.splits list.splits)

end
